theory Spec2Isabelle
  imports Complex_Main
begin

section \<open>Python string primitives used by the services\<close>

text \<open>
  Python strings are modelled as HOL strings whose characters are code points below 256.
  \<^verbatim>\<open>str.isspace\<close> and the regular expression class \<^verbatim>\<open>\s\<close> agree on that range:
  tab, line feed, vertical tab, form feed, carriage return, the four separators
  0x1C..0x1F, the blank, NEL (0x85) and the no-break space (0xA0).
\<close>

definition whitespace_chars :: "char list" where
  "whitespace_chars =
     [CHR 0x09, CHR 0x0A, CHR 0x0B, CHR 0x0C, CHR 0x0D,
      CHR 0x1C, CHR 0x1D, CHR 0x1E, CHR 0x1F, CHR 0x20, CHR 0x85, CHR 0xA0]"

definition is_space :: "char \<Rightarrow> bool" where
  "is_space c = (c \<in> set whitespace_chars)"

text \<open>The character class \<^verbatim>\<open>[.!?]\<close> of the sentence boundary pattern.\<close>

definition is_terminal :: "char \<Rightarrow> bool" where
  "is_terminal c = (c = CHR ''.'' \<or> c = CHR ''!'' \<or> c = CHR ''?'')"

text \<open>
  \<^verbatim>\<open>s.split()\<close>: the maximal runs of non-whitespace characters, in order. The first
  argument is the word being read.
\<close>

fun split_ws :: "string \<Rightarrow> string \<Rightarrow> string list" where
  "split_ws cur [] = (if cur = [] then [] else [cur])"
| "split_ws cur (c # cs) =
     (if is_space c then (if cur = [] then split_ws [] cs else cur # split_ws [] cs)
      else split_ws (cur @ [c]) cs)"

definition py_split :: "string \<Rightarrow> string list" where
  "py_split s = split_ws [] s"

text \<open>\<^verbatim>\<open>len(s.split())\<close>, as a Python integer.\<close>

definition word_count :: "string \<Rightarrow> int" where
  "word_count s = int (length (py_split s))"

text \<open>\<^verbatim>\<open>' '.join(xs)\<close>.\<close>

fun join_sp :: "string list \<Rightarrow> string" where
  "join_sp [] = []"
| "join_sp [s] = s"
| "join_sp (s # t # ss) = s @ CHR '' '' # join_sp (t # ss)"

text \<open>
  \<^verbatim>\<open>re.split(r'(?<=[.!?])\s+', text)\<close>. A match starts at a whitespace character
  whose predecessor is one of \<^verbatim>\<open>. ! ?\<close> and takes the whole run of whitespace; the
  pieces between matches are returned, the empty ones included. The first argument is
  the piece being read, the second tells whether the previous character of the text is
  a terminal one.
\<close>

function re_split_from :: "string \<Rightarrow> bool \<Rightarrow> string \<Rightarrow> string list" where
  "re_split_from cur prev [] = [cur]"
| "re_split_from cur prev (c # cs) =
     (if prev \<and> is_space c then cur # re_split_from [] False (dropWhile is_space cs)
      else re_split_from (cur @ [c]) (is_terminal c) cs)"
  by pat_completeness auto
termination
  by (relation "measure (\<lambda>(cur, prev, s). length s)")
     (auto simp: less_Suc_eq_le length_dropWhile_le)

definition split_sentences :: "string \<Rightarrow> string list" where
  "split_sentences text = re_split_from [] False text"

section \<open>The chunker (\<^verbatim>\<open>DocumentChatbot.chunk_document\<close>)\<close>

text \<open>
  The loop over the sentences, with the three variables of the source as arguments:
  \<open>chunks\<close>, \<open>current_chunk\<close> and \<open>current_length\<close>. The result is the state after the
  last sentence.
\<close>

fun chunk_loop ::
  "int \<Rightarrow> int \<Rightarrow> string list \<Rightarrow> string list \<Rightarrow> int \<Rightarrow> string list
     \<Rightarrow> string list \<times> string list \<times> int" where
  "chunk_loop chunk_size ov chunks current_chunk current_length [] =
     (chunks, current_chunk, current_length)"
| "chunk_loop chunk_size ov chunks current_chunk current_length (sentence # rest) =
     (let sentence_length = word_count sentence in
      if current_length + sentence_length > chunk_size \<and> current_chunk \<noteq> [] then
        (let chunks' = chunks @ [join_sp current_chunk];
             overlap_start_index = max 0 (int (length current_chunk) - ov);
             kept = drop (nat overlap_start_index) current_chunk;
             kept_length = sum_list (map word_count kept)
         in chunk_loop chunk_size ov chunks' (kept @ [sentence])
              (kept_length + sentence_length) rest)
      else
        chunk_loop chunk_size ov chunks (current_chunk @ [sentence])
          (current_length + sentence_length) rest)"

definition chunk_document :: "string \<Rightarrow> int \<Rightarrow> int \<Rightarrow> string list" where
  "chunk_document text chunk_size chunk_overlap_sentences =
     (case chunk_loop chunk_size chunk_overlap_sentences [] [] 0 (split_sentences text) of
        (chunks, current_chunk, current_length) \<Rightarrow>
          if current_chunk \<noteq> [] then chunks @ [join_sp current_chunk] else chunks)"

text \<open>
  The same loop with the closed chunks kept as lists of sentences instead of the joined
  strings. It is the view of the chunker in which overlap between neighbouring chunks
  can be stated; \<open>chunk_document\<close> is its image under \<open>join_sp\<close>.
\<close>

fun group_loop ::
  "int \<Rightarrow> int \<Rightarrow> string list list \<Rightarrow> string list \<Rightarrow> int \<Rightarrow> string list
     \<Rightarrow> string list list \<times> string list \<times> int" where
  "group_loop chunk_size ov groups current_chunk current_length [] =
     (groups, current_chunk, current_length)"
| "group_loop chunk_size ov groups current_chunk current_length (sentence # rest) =
     (let sentence_length = word_count sentence in
      if current_length + sentence_length > chunk_size \<and> current_chunk \<noteq> [] then
        (let groups' = groups @ [current_chunk];
             overlap_start_index = max 0 (int (length current_chunk) - ov);
             kept = drop (nat overlap_start_index) current_chunk;
             kept_length = sum_list (map word_count kept)
         in group_loop chunk_size ov groups' (kept @ [sentence])
              (kept_length + sentence_length) rest)
      else
        group_loop chunk_size ov groups (current_chunk @ [sentence])
          (current_length + sentence_length) rest)"

definition chunk_groups :: "string list \<Rightarrow> int \<Rightarrow> int \<Rightarrow> string list list" where
  "chunk_groups sentences chunk_size chunk_overlap_sentences =
     (case group_loop chunk_size chunk_overlap_sentences [] [] 0 sentences of
        (groups, current_chunk, current_length) \<Rightarrow>
          if current_chunk \<noteq> [] then groups @ [current_chunk] else groups)"

text \<open>
  The sentences a closed chunk hands over to its successor:
  \<^verbatim>\<open>current_chunk[max(0, len(current_chunk) - chunk_overlap_sentences):]\<close>.
\<close>

definition overlap_tail :: "int \<Rightarrow> 'a list \<Rightarrow> 'a list" where
  "overlap_tail ov current_chunk =
     drop (nat (max 0 (int (length current_chunk) - ov))) current_chunk"




text \<open>
  The size bound the chunks meet, given the sentences \<open>carry\<close> handed over to the
  first of them (none for the first chunk of a document): a chunk has at most
  \<open>chunk_size\<close> words, or it is what was handed over to it followed by exactly one
  new sentence.
\<close>

fun bounded_chunks :: "int \<Rightarrow> int \<Rightarrow> string list \<Rightarrow> string list list \<Rightarrow> bool" where
  "bounded_chunks chunk_size ov carry [] = True"
| "bounded_chunks chunk_size ov carry (g # gs) =
     ((word_count (join_sp g) \<le> chunk_size \<or> (g \<noteq> [] \<and> butlast g = carry)) \<and>
      bounded_chunks chunk_size ov (overlap_tail ov g) gs)"

section \<open>More Python primitives\<close>

text \<open>\<^verbatim>\<open>s.strip()\<close>, \<^verbatim>\<open>s.lstrip(chars)\<close> and \<^verbatim>\<open>s.rstrip(chars)\<close>.\<close>

definition py_strip :: "string \<Rightarrow> string" where
  "py_strip s = rev (dropWhile is_space (rev (dropWhile is_space s)))"

definition py_lstrip_chars :: "string \<Rightarrow> string \<Rightarrow> string" where
  "py_lstrip_chars chars s = dropWhile (\<lambda>c. c \<in> set chars) s"

definition py_rstrip_chars :: "string \<Rightarrow> string \<Rightarrow> string" where
  "py_rstrip_chars chars s = rev (dropWhile (\<lambda>c. c \<in> set chars) (rev s))"

text \<open>
  \<^verbatim>\<open>s.lower()\<close> on code points below 256: the letters A..Z and the capital letters of
  the Latin-1 block (0xC0..0xDE without the multiplication sign 0xD7) move up by 32.
\<close>

definition lower_char :: "char \<Rightarrow> char" where
  "lower_char c =
     (let n = (of_char c :: nat) in
      if (65 \<le> n \<and> n \<le> 90) \<or> (192 \<le> n \<and> n \<le> 222 \<and> n \<noteq> 215)
      then char_of (n + 32) else c)"

definition py_lower :: "string \<Rightarrow> string" where
  "py_lower s = map lower_char s"


text \<open>\<^verbatim>\<open>p in s\<close> on strings.\<close>

fun starts_with :: "string \<Rightarrow> string \<Rightarrow> bool" where
  "starts_with s [] = True"
| "starts_with [] (p # ps) = False"
| "starts_with (c # cs) (p # ps) = (c = p \<and> starts_with cs ps)"

fun contains :: "string \<Rightarrow> string \<Rightarrow> bool" where
  "contains [] p = (p = [])"
| "contains (c # cs) p = (starts_with (c # cs) p \<or> contains cs p)"

text \<open>
  The slices \<^verbatim>\<open>xs[start:]\<close> and \<^verbatim>\<open>xs[:stop]\<close>: a negative bound counts from the end
  and is clipped at the beginning of the list.
\<close>

definition py_slice_from :: "'a list \<Rightarrow> int \<Rightarrow> 'a list" where
  "py_slice_from xs start =
     (if start < 0 then drop (nat (int (length xs) + start)) xs else drop (nat start) xs)"

definition py_slice_to :: "'a list \<Rightarrow> int \<Rightarrow> 'a list" where
  "py_slice_to xs stop =
     (if stop < 0 then take (nat (int (length xs) + stop)) xs else take (nat stop) xs)"

text \<open>
  \<^verbatim>\<open>sorted(xs, key=f, reverse=True)\<close> and \<^verbatim>\<open>xs.sort(key=f, reverse=True)\<close>: descending
  in the key, elements with equal keys in their original order.
\<close>

definition sort_key_reverse :: "('a \<Rightarrow> 'k::linorder) \<Rightarrow> 'a list \<Rightarrow> 'a list" where
  "sort_key_reverse f xs = rev (sort_key f (rev xs))"

text \<open>\<^verbatim>\<open>[xs[i] for i in indices]\<close>, which raises IndexError at an index out of range.\<close>

fun index_all :: "'a list \<Rightarrow> nat list \<Rightarrow> string + 'a list" where
  "index_all xs [] = Inr []"
| "index_all xs (i # is) =
     (if i < length xs
      then (case index_all xs is of Inl e \<Rightarrow> Inl e | Inr ys \<Rightarrow> Inr (xs ! i # ys))
      else Inl ''list index out of range'')"

section \<open>Ranking chunks by similarity\<close>

text \<open>
  Similarity scores are floating point numbers in the source; here they are values of a
  linear order (rationals where arithmetic is done on them). \<^verbatim>\<open>np.argsort\<close> belongs to
  the numerical library and is a parameter of the ranking. What the library promises of
  it is \<open>is_argsort\<close>: the result is a permutation of the indices along which the
  scores ascend. The default sorting kind is not stable, so the order of the indices
  of equal scores is left open.
\<close>

definition is_argsort :: "'s::linorder list \<Rightarrow> nat list \<Rightarrow> bool" where
  "is_argsort similarities indices =
     (sort indices = [0..<length similarities] \<and>
      sorted (map (\<lambda>i. similarities ! i) indices))"

text \<open>\<^verbatim>\<open>np.argsort(similarities)[-top_k:][::-1]\<close>.\<close>

definition top_indices :: "('s::linorder list \<Rightarrow> nat list) \<Rightarrow> 's list \<Rightarrow> int \<Rightarrow> nat list" where
  "top_indices argsort similarities top_k =
     rev (py_slice_from (argsort similarities) (- top_k))"

text \<open>\<^verbatim>\<open>np.mean\<close>; \<open>None\<close> stands for the NaN it yields on an empty list.\<close>

definition mean :: "rat list \<Rightarrow> rat option" where
  "mean xs = (if xs = [] then None else Some (sum_list xs / of_nat (length xs)))"

text \<open>\<^verbatim>\<open>round(x, 3)\<close> on exact values: to the nearest thousandth, ties to the even one.\<close>

definition round3 :: "rat \<Rightarrow> rat" where
  "round3 x =
     (let y = x * 1000; f = \<lfloor>y\<rfloor>; r = y - of_int f in
      of_int (if r < 1 / 2 then f else if 1 / 2 < r then f + 1
              else if even f then f else f + 1) / 1000)"

text \<open>
  The first row of the similarity matrix, \<^verbatim>\<open>cosine_similarity(a, b)[0]\<close>.
\<close>

definition first_row :: "'a list list \<Rightarrow> string + 'a list" where
  "first_row m = (case m of [] \<Rightarrow> Inl ''index 0 is out of bounds'' | row # _ \<Rightarrow> Inr row)"

text \<open>
  \<^verbatim>\<open>find_relevant_context\<close>. The sentence encoder, the cosine similarity and the
  sorting of the libraries are parameters; \<open>Inl\<close> is an exception they raise, with its
  text.
  The result is \<open>(context, avg_confidence, relevant_chunks)\<close>.
\<close>

definition find_relevant_context ::
  "(string list \<Rightarrow> string + 'v list) \<Rightarrow> ('v list \<Rightarrow> 'v list \<Rightarrow> string + rat list list)
     \<Rightarrow> (rat list \<Rightarrow> nat list)
     \<Rightarrow> string \<Rightarrow> string list \<Rightarrow> int \<Rightarrow> string + (string \<times> rat option \<times> string list)" where
  "find_relevant_context encode cosine_similarity argsort question document_chunks top_k =
     (case encode [question] of Inl e \<Rightarrow> Inl e | Inr question_embedding \<Rightarrow>
     (case encode document_chunks of Inl e \<Rightarrow> Inl e | Inr chunk_embeddings \<Rightarrow>
     (case cosine_similarity question_embedding chunk_embeddings of Inl e \<Rightarrow> Inl e | Inr m \<Rightarrow>
     (case first_row m of Inl e \<Rightarrow> Inl e | Inr similarities \<Rightarrow>
     (case index_all document_chunks (top_indices argsort similarities top_k) of Inl e \<Rightarrow> Inl e
      | Inr relevant_chunks \<Rightarrow>
     (case index_all similarities (top_indices argsort similarities top_k) of Inl e \<Rightarrow> Inl e
      | Inr confidence_scores \<Rightarrow>
          Inr (join_sp relevant_chunks, mean confidence_scores, relevant_chunks)))))))"

section \<open>The local answer (\<^verbatim>\<open>DocumentChatbot.generate_answer\<close>)\<close>

definition no_answer_message :: string where
  "no_answer_message =
     ''I couldn'' @ [CHR 0x27] @
     ''t find a specific answer to your question in the document. '' @
     ''Could you rephrase or ask something else?''"

text \<open>\<^verbatim>\<open>len(question_words.intersection(set(sentence.lower().split())))\<close>.\<close>

definition overlap :: "string set \<Rightarrow> string \<Rightarrow> nat" where
  "overlap question_words sentence =
     card (question_words \<inter> set (py_split (py_lower sentence)))"

text \<open>The loop that scores the sentences and keeps those with a positive score.\<close>

fun score_sentences :: "string set \<Rightarrow> string list \<Rightarrow> (nat \<times> string) list" where
  "score_sentences question_words [] = []"
| "score_sentences question_words (sentence # rest) =
     (if overlap question_words sentence > 0
      then (overlap question_words sentence, sentence) # score_sentences question_words rest
      else score_sentences question_words rest)"

definition generate_answer :: "string \<Rightarrow> string \<Rightarrow> 'h \<Rightarrow> string" where
  "generate_answer question context conversation_history =
     (let question_words = set (py_split (py_lower question));
          context_sentences = split_sentences context;
          scored_sentences = score_sentences question_words context_sentences
      in if scored_sentences = [] then no_answer_message
         else py_strip (join_sp (map snd (py_slice_to (sort_key_reverse fst scored_sentences) 2))))"

section \<open>The session store (\<^verbatim>\<open>DocumentChatbot.sessions\<close>)\<close>

text \<open>A conversation turn, \<^verbatim>\<open>{"question", "answer", "timestamp"}\<close>.\<close>

record turn =
  turn_question :: string
  turn_answer :: string
  turn_timestamp :: string

text \<open>A stored session; \<open>'v\<close> is the type of an embedding vector.\<close>

record 'v session =
  s_document_text :: string
  s_chunks :: "string list"
  s_chunk_embeddings :: "'v list"
  s_metadata :: "(string \<times> string) list"
  s_conversation_history :: "turn list"
  s_created_at :: string

type_synonym 'v sessions = "string \<rightharpoonup> 'v session"

text \<open>
  \<^verbatim>\<open>create_session\<close>. The state is the dictionary of sessions, returned updated. \<open>now\<close>
  is the reading of the clock, \<^verbatim>\<open>datetime.now().isoformat()\<close>. The result is
  \<open>Inl\<close> of the text of \<^verbatim>\<open>{"error": ...}\<close>, or \<open>Inr (session_id, chunks_count)\<close> for
  \<^verbatim>\<open>{"success": True, ...}\<close>. The chunker is a total function on strings, so the only
  exception the \<^verbatim>\<open>try\<close> block can meet is one of the encoder.
\<close>

definition create_session ::
  "(string list \<Rightarrow> string + 'v list) \<Rightarrow> string \<Rightarrow> 'v sessions \<Rightarrow> string \<Rightarrow> string
     \<Rightarrow> (string \<times> string) list option \<Rightarrow> 'v sessions \<times> (string + string \<times> nat)" where
  "create_session encode now sessions session_id document_text metadata =
     (let chunks = chunk_document document_text 200 2 in
      case encode chunks of
        Inl e \<Rightarrow> (sessions, Inl (''Failed to create session: '' @ e))
      | Inr chunk_embeddings \<Rightarrow>
          (sessions(session_id \<mapsto>
             \<lparr>s_document_text = document_text,
              s_chunks = chunks,
              s_chunk_embeddings = chunk_embeddings,
              s_metadata = (case metadata of None \<Rightarrow> [] | Some m \<Rightarrow> m),
              s_conversation_history = [],
              s_created_at = now\<rparr>),
           Inr (session_id, length chunks)))"

text \<open>The answer of \<^verbatim>\<open>answer_from_session\<close>.\<close>

record answer_result =
  r_answer :: string
  r_confidence_score :: "rat option"
  r_relevant_context :: string
  r_sources :: "string list"

text \<open>\<^verbatim>\<open>context[:500] + "..." if len(context) > 500 else context\<close>.\<close>

definition preview :: "string \<Rightarrow> string" where
  "preview context = (if length context > 500 then take 500 context @ ''...'' else context)"

text \<open>
  The part of \<^verbatim>\<open>answer_from_session\<close> inside \<^verbatim>\<open>try\<close> up to the call of
  \<^verbatim>\<open>generate_answer\<close>: \<open>(context, avg_confidence, relevant_chunks)\<close>, or the exception.
\<close>

definition retrieve ::
  "(string list \<Rightarrow> string + 'v list) \<Rightarrow> ('v list \<Rightarrow> 'v list \<Rightarrow> string + rat list list)
     \<Rightarrow> (rat list \<Rightarrow> nat list)
     \<Rightarrow> 'v session \<Rightarrow> string \<Rightarrow> string + (string \<times> rat option \<times> string list)" where
  "retrieve encode cosine_similarity argsort session question =
     (case encode [question] of Inl e \<Rightarrow> Inl e | Inr question_embedding \<Rightarrow>
     (case cosine_similarity question_embedding (s_chunk_embeddings session) of
        Inl e \<Rightarrow> Inl e | Inr m \<Rightarrow>
     (case first_row m of Inl e \<Rightarrow> Inl e | Inr similarities \<Rightarrow>
     (case index_all (s_chunks session) (top_indices argsort similarities 3) of Inl e \<Rightarrow> Inl e
      | Inr relevant_chunks \<Rightarrow>
     (case index_all similarities (top_indices argsort similarities 3) of Inl e \<Rightarrow> Inl e
      | Inr scores \<Rightarrow> Inr (join_sp relevant_chunks, mean scores, relevant_chunks))))))"

definition answer_from_session ::
  "(string list \<Rightarrow> string + 'v list) \<Rightarrow> ('v list \<Rightarrow> 'v list \<Rightarrow> string + rat list list)
     \<Rightarrow> (rat list \<Rightarrow> nat list)
     \<Rightarrow> string \<Rightarrow> 'v sessions \<Rightarrow> string \<Rightarrow> string
     \<Rightarrow> 'v sessions \<times> (string + answer_result)" where
  "answer_from_session encode cosine_similarity argsort now sessions session_id question =
     (case sessions session_id of
        None \<Rightarrow> (sessions, Inl ''Session not found. Please create a session first.'')
      | Some session \<Rightarrow>
          (case retrieve encode cosine_similarity argsort session question of
             Inl e \<Rightarrow> (sessions, Inl (''Failed to answer from session: '' @ e))
           | Inr (context, avg_confidence, relevant_chunks) \<Rightarrow>
               (let answer = generate_answer question context (s_conversation_history session);
                    session' = session\<lparr>s_conversation_history :=
                      s_conversation_history session @
                        [\<lparr>turn_question = question, turn_answer = answer,
                          turn_timestamp = now\<rparr>]\<rparr>
                in (sessions(session_id \<mapsto> session'),
                    Inr \<lparr>r_answer = answer,
                         r_confidence_score = map_option round3 avg_confidence,
                         r_relevant_context = preview context,
                         r_sources = relevant_chunks\<rparr>))))"

text \<open>\<^verbatim>\<open>clear_history\<close>: \<open>Inl\<close> is \<^verbatim>\<open>{"error": "Session not found"}\<close>, \<open>Inr ()\<close> is success.\<close>

definition clear_history :: "'v sessions \<Rightarrow> string \<Rightarrow> 'v sessions \<times> (string + unit)" where
  "clear_history sessions session_id =
     (case sessions session_id of
        None \<Rightarrow> (sessions, Inl ''Session not found'')
      | Some session \<Rightarrow>
          (sessions(session_id \<mapsto> session\<lparr>s_conversation_history := []\<rparr>), Inr ()))"

section \<open>The endpoint \<^verbatim>\<open>POST /chat/ask/\<close> (\<^verbatim>\<open>ask_question\<close>)\<close>

text \<open>A parsed JSON value, as \<^verbatim>\<open>json.loads\<close> returns it.\<close>

datatype json =
  JNull | JBool bool | JInt int | JFloat rat | JStr string
  | JArr "json list" | JObj "(string \<times> json) list"

text \<open>\<^verbatim>\<open>ChatQuestionRequest\<close>, after validation.\<close>

record chat_request =
  req_session_id :: string
  req_question :: string
  req_language :: string
  req_use_llm :: bool

text \<open>
  \<^verbatim>\<open>ChatResponse\<close>; the processing time, a difference of two clock readings, is left out.
\<close>

record chat_response =
  resp_session_id :: string
  resp_question :: string
  resp_answer :: string
  resp_confidence_score :: "rat option"
  resp_relevant_context :: "string option"
  resp_timestamp :: string

text \<open>\<^verbatim>\<open>HTTPException(status_code, detail)\<close>.\<close>

record http_error =
  status_code :: nat
  detail :: string

text \<open>
  The collaborators of the language model path: whether a provider is configured,
  the call \<^verbatim>\<open>llm_service.chat_with_llm\<close> (it reads the history it is given and does not
  change it), \<^verbatim>\<open>json.loads\<close> (\<open>None\<close> is \<^verbatim>\<open>JSONDecodeError\<close>), and the validation of the
  answer and the confidence score by the response model, which yields the two fields or
  the text of a validation error.
\<close>

record llm_collaborators =
  is_available :: bool
  chat_with_llm :: "string \<Rightarrow> string \<Rightarrow> string \<Rightarrow> turn list \<Rightarrow> string + string"
  json_loads :: "string \<Rightarrow> json option"
  validate_fields :: "json \<Rightarrow> json \<Rightarrow> string + (string \<times> rat option)"

text \<open>
  \<^verbatim>\<open>d.get(key, default)\<close> on the pairs of a JSON object, whose keys are distinct.
\<close>

definition json_get :: "(string \<times> json) list \<Rightarrow> string \<Rightarrow> json \<Rightarrow> json" where
  "json_get kvs key dflt = (case map_of kvs key of None \<Rightarrow> dflt | Some v \<Rightarrow> v)"

text \<open>
  The mapping of \<^verbatim>\<open>{"error": ...}\<close> to a status: 404 when the lower-cased text
  contains \<^verbatim>\<open>not found\<close>, 400 otherwise.
\<close>

definition error_response :: "string \<Rightarrow> http_error" where
  "error_response err =
     (if contains (py_lower err) ''not found''
      then \<lparr>status_code = 404, detail = ''Session not found. Please upload a document first.''\<rparr>
      else \<lparr>status_code = 400, detail = err\<rparr>)"

text \<open>
  The language model branch of \<^verbatim>\<open>ask_question\<close>, for a session that was found. It has
  no access to the dictionary of sessions.
\<close>

definition ask_llm ::
  "llm_collaborators \<Rightarrow> string \<Rightarrow> 'v session \<Rightarrow> chat_request \<Rightarrow> http_error + chat_response" where
  "ask_llm llm now session request =
     (case chat_with_llm llm (s_document_text session) (req_question request)
             (req_language request) (s_conversation_history session) of
        Inl e \<Rightarrow> Inl \<lparr>status_code = 500, detail = ''Failed to answer question: '' @ e\<rparr>
      | Inr llm_response_json_str \<Rightarrow>
          (let json_str_cleaned =
                 py_strip (py_rstrip_chars [CHR 0x60]
                   (py_lstrip_chars (CHR 0x60 # ''json'') (py_strip llm_response_json_str)))
           in case json_loads llm json_str_cleaned of
                None \<Rightarrow>
                  Inl (error_response
                    (''LLM failed to return a structured JSON response. Raw output: '' @
                       take 200 llm_response_json_str))
              | Some (JObj llm_response) \<Rightarrow>
                  (case validate_fields llm
                          (json_get llm_response ''answer''
                             (JStr ''Error: LLM returned no answer.''))
                          (json_get llm_response ''confidence_score'' JNull) of
                     Inl e \<Rightarrow>
                       Inl \<lparr>status_code = 500, detail = ''Failed to answer question: '' @ e\<rparr>
                   | Inr (answer, confidence_score) \<Rightarrow>
                       Inr \<lparr>resp_session_id = req_session_id request,
                            resp_question = req_question request,
                            resp_answer = answer,
                            resp_confidence_score = confidence_score,
                            resp_relevant_context = Some (take 500 (s_document_text session)),
                            resp_timestamp = now\<rparr>)
              | Some _ \<Rightarrow>
                  Inl \<lparr>status_code = 500,
                       detail = ''Failed to answer question: object has no attribute get''\<rparr>))"

text \<open>
  \<^verbatim>\<open>ask_question\<close>: the dictionary of sessions after the request, and the response or
  the HTTP error.
\<close>

definition ask_question ::
  "llm_collaborators \<Rightarrow> (string list \<Rightarrow> string + 'v list)
     \<Rightarrow> ('v list \<Rightarrow> 'v list \<Rightarrow> string + rat list list) \<Rightarrow> (rat list \<Rightarrow> nat list)
     \<Rightarrow> string
     \<Rightarrow> 'v sessions \<Rightarrow> chat_request \<Rightarrow> 'v sessions \<times> (http_error + chat_response)" where
  "ask_question llm encode cosine_similarity argsort now sessions request =
     (if req_use_llm request \<and> is_available llm then
        (case sessions (req_session_id request) of
           None \<Rightarrow> (sessions, Inl \<lparr>status_code = 404, detail = ''Session not found''\<rparr>)
         | Some session \<Rightarrow> (sessions, ask_llm llm now session request))
      else
        (case answer_from_session encode cosine_similarity argsort now sessions
                (req_session_id request) (req_question request) of
           (sessions', Inl err) \<Rightarrow> (sessions', Inl (error_response err))
         | (sessions', Inr result) \<Rightarrow>
             (sessions',
              Inr \<lparr>resp_session_id = req_session_id request,
                   resp_question = req_question request,
                   resp_answer = r_answer result,
                   resp_confidence_score = r_confidence_score result,
                   resp_relevant_context = Some (r_relevant_context result),
                   resp_timestamp = now\<rparr>)))"

section \<open>Extractive summarization (\<^verbatim>\<open>HybridSummarizer.extractive_summarize\<close>)\<close>





section \<open>Invariants of the chunking loop\<close>



text \<open>The sentences the chunk being filled was opened with.\<close>

definition carry_of :: "int \<Rightarrow> 'a list list \<Rightarrow> 'a list" where
  "carry_of ov gs = (if gs = [] then [] else overlap_tail ov (last gs))"

text \<open>
  The running length is the word count of the chunk being filled; the closed chunks
  meet the bound; the chunk being filled is empty only before the first sentence, and
  it is within the size or is what it was opened with and one new sentence.
\<close>

definition size_inv :: "int \<Rightarrow> int \<Rightarrow> string list list \<Rightarrow> string list \<Rightarrow> int \<Rightarrow> bool" where
  "size_inv sz ov gs cur len =
     (len = sum_list (map word_count cur) \<and> bounded_chunks sz ov [] gs \<and>
      (if cur = [] then gs = []
       else word_count (join_sp cur) \<le> sz \<or> butlast cur = carry_of ov gs))"

section \<open>Sample collaborators and stores\<close>

text \<open>
  Concrete stand-ins for the external collaborators, used where a property is evaluated
  at an input: an encoder that maps a text to its length, an encoder that raises, a
  similarity that gives every chunk the score one half, the stable sort as one sorting
  the library may perform (\<^verbatim>\<open>kind='stable'\<close>), and a store with one session.
\<close>

definition sample_encode :: "string list \<Rightarrow> string + nat list" where
  "sample_encode texts = Inr (map length texts)"

definition failing_encode :: "string list \<Rightarrow> string + nat list" where
  "failing_encode texts = Inl ''model unreachable''"

definition sample_cosine :: "nat list \<Rightarrow> nat list \<Rightarrow> string + rat list list" where
  "sample_cosine a b = Inr (map (\<lambda>x. map (\<lambda>y. 1 / 2) b) a)"

definition stable_argsort :: "'s::linorder list \<Rightarrow> nat list" where
  "stable_argsort similarities =
     sort_key (\<lambda>i. similarities ! i) [0..<length similarities]"

definition sample_session :: "nat session" where
  "sample_session =
     \<lparr>s_document_text = ''Paris is the capital of France. It is big.'',
      s_chunks = [''Paris is the capital of France. It is big.''],
      s_chunk_embeddings = [42],
      s_metadata = [(''document_name'', ''france.txt'')],
      s_conversation_history =
        [\<lparr>turn_question = ''Is it big?'', turn_answer = ''It is big.'',
          turn_timestamp = ''2024-01-01T00:00:00''\<rparr>],
      s_created_at = ''2024-01-01T00:00:00''\<rparr>"

definition sample_sessions :: "nat sessions" where
  "sample_sessions = Map.empty(''s1'' \<mapsto> sample_session)"

text \<open>
  A language model that is configured and replies with the JSON object
  \<^verbatim>\<open>{"answer": "Paris", "confidence_score": 0.9}\<close>, a parser that knows this reply, and
  a validation that accepts a string answer with an absent or floating point score.
\<close>

definition sample_llm_reply :: string where
  "sample_llm_reply =
     ''{'' @ [CHR 0x22] @ ''answer'' @ [CHR 0x22] @ '': '' @ [CHR 0x22] @ ''Paris'' @
     [CHR 0x22] @ '', '' @ [CHR 0x22] @ ''confidence_score'' @ [CHR 0x22] @ '': 0.9}''"

fun sample_validate :: "json \<Rightarrow> json \<Rightarrow> string + (string \<times> rat option)" where
  "sample_validate (JStr a) JNull = Inr (a, None)"
| "sample_validate (JStr a) (JFloat c) = Inr (a, Some c)"
| "sample_validate a c = Inl ''validation error for ChatResponse''"

definition sample_llm :: llm_collaborators where
  "sample_llm =
     \<lparr>is_available = True,
      chat_with_llm = (\<lambda>document_context question language history. Inr sample_llm_reply),
      json_loads = (\<lambda>s. if s = sample_llm_reply
                         then Some (JObj [(''answer'', JStr ''Paris''),
                                          (''confidence_score'', JFloat (9 / 10))])
                         else None),
      validate_fields = sample_validate\<rparr>"

definition sample_request :: chat_request where
  "sample_request =
     \<lparr>req_session_id = ''s1'', req_question = ''What is the capital of France?'',
      req_language = ''english'', req_use_llm = True\<rparr>"

section \<open>Properties of the chunker\<close>

text \<open>Joining with a blank adds up the word counts.\<close>

lemma split_ws_space: "split_ws cur (a @ CHR '' '' # b) = split_ws cur a @ split_ws [] b"
  by (induction a arbitrary: cur) (auto simp: is_space_def whitespace_chars_def)

lemma py_split_join_Cons:
  "py_split (s @ CHR '' '' # r) = py_split s @ py_split r"
  by (simp add: py_split_def split_ws_space)

lemma word_count_join: "word_count (join_sp g) = sum_list (map word_count g)"
proof (induction g rule: join_sp.induct)
  case 1
  show ?case by (simp add: word_count_def py_split_def)
next
  case (2 s)
  show ?case by simp
next
  case (3 s t ss)
  then show ?case by (simp add: word_count_def py_split_join_Cons)
qed

text \<open>The chunks are the joined sentence groups.\<close>

lemma chunk_loop_groups:
  "chunk_loop sz ov (map join_sp gs) cur len ss =
     (case group_loop sz ov gs cur len ss of (g, c, l) \<Rightarrow> (map join_sp g, c, l))"
proof (induction ss arbitrary: gs cur len)
  case Nil
  show ?case by simp
next
  case (Cons s ss)
  show ?case
    using Cons.IH [of "gs @ [cur]"] Cons.IH [of gs]
    by (simp add: Let_def)
qed

lemma chunk_document_groups:
  "chunk_document text sz ov = map join_sp (chunk_groups (split_sentences text) sz ov)"
  using chunk_loop_groups [of sz ov "[]" "[]" 0 "split_sentences text"]
  by (simp add: chunk_document_def chunk_groups_def split: prod.splits)


text \<open>The overlap and the de-overlapping of a list of groups extended at its end.\<close>

lemma length_overlap_tail: "length (overlap_tail ov g) = min (nat ov) (length g)"
  unfolding overlap_tail_def length_drop by linarith








lemma group_loop_nonempty:
  "group_loop sz ov gs cur len ss = (G, c, l) \<Longrightarrow> ss \<noteq> [] \<or> cur \<noteq> [] \<Longrightarrow> c \<noteq> []"
proof (induction ss arbitrary: gs cur len)
  case Nil
  then show ?case by simp
next
  case (Cons s ss)
  show ?case
  proof (cases "len + word_count s > sz \<and> cur \<noteq> []")
    case True
    with Cons.prems(1)
    have "group_loop sz ov (gs @ [cur]) (overlap_tail ov cur @ [s])
            (sum_list (map word_count (overlap_tail ov cur)) + word_count s) ss = (G, c, l)"
      by (simp add: Let_def overlap_tail_def)
    then show ?thesis by (rule Cons.IH) simp
  next
    case False
    with Cons.prems(1)
    have "group_loop sz ov gs (cur @ [s]) (len + word_count s) ss = (G, c, l)"
      by (auto simp: Let_def)
    then show ?thesis by (rule Cons.IH) simp
  qed
qed



text \<open>The size bound is an invariant of the loop.\<close>

lemma bounded_chunks_snoc:
  "bounded_chunks sz ov c (gs @ [g]) =
     (bounded_chunks sz ov c gs \<and>
      (word_count (join_sp g) \<le> sz \<or>
       (g \<noteq> [] \<and> butlast g = (if gs = [] then c else overlap_tail ov (last gs)))))"
  by (induction gs arbitrary: c) auto

lemma size_inv_init: "size_inv sz ov [] [] 0"
  by (simp add: size_inv_def)

lemma size_step_append:
  assumes "size_inv sz ov gs cur len" and "\<not> (len + word_count s > sz \<and> cur \<noteq> [])"
  shows "size_inv sz ov gs (cur @ [s]) (len + word_count s)"
proof (cases "cur = []")
  case True
  with assms(1) show ?thesis by (simp add: size_inv_def carry_of_def)
next
  case False
  with assms have "word_count (join_sp (cur @ [s])) \<le> sz"
    by (simp add: size_inv_def word_count_join)
  with assms(1) show ?thesis by (simp add: size_inv_def)
qed

lemma size_step_close:
  assumes "size_inv sz ov gs cur len" and "cur \<noteq> []"
  shows "size_inv sz ov (gs @ [cur]) (overlap_tail ov cur @ [s])
           (sum_list (map word_count (overlap_tail ov cur)) + word_count s)"
  using assms by (auto simp: size_inv_def bounded_chunks_snoc carry_of_def)

lemma group_loop_size:
  assumes "size_inv sz ov gs cur len" and "group_loop sz ov gs cur len ss = (G, c, l)"
  shows "size_inv sz ov G c l"
  using assms
proof (induction ss arbitrary: gs cur len)
  case Nil
  then show ?case by simp
next
  case (Cons s ss)
  show ?case
  proof (cases "len + word_count s > sz \<and> cur \<noteq> []")
    case True
    with Cons.prems(2)
    have run: "group_loop sz ov (gs @ [cur]) (overlap_tail ov cur @ [s])
                 (sum_list (map word_count (overlap_tail ov cur)) + word_count s) ss = (G, c, l)"
      by (simp add: Let_def overlap_tail_def)
    from True have "cur \<noteq> []" by simp
    with Cons.prems(1) have "size_inv sz ov (gs @ [cur]) (overlap_tail ov cur @ [s])
           (sum_list (map word_count (overlap_tail ov cur)) + word_count s)"
      by (rule size_step_close)
    then show ?thesis using run by (rule Cons.IH)
  next
    case False
    with Cons.prems(2)
    have run: "group_loop sz ov gs (cur @ [s]) (len + word_count s) ss = (G, c, l)"
      by (auto simp: Let_def)
    from Cons.prems(1) False have "size_inv sz ov gs (cur @ [s]) (len + word_count s)"
      by (rule size_step_append)
    then show ?thesis using run by (rule Cons.IH)
  qed
qed

lemma chunk_groups_bounded: "bounded_chunks sz ov [] (chunk_groups ss sz ov)"
proof -
  obtain G c l where run: "group_loop sz ov [] [] 0 ss = (G, c, l)"
    by (cases "group_loop sz ov [] [] 0 ss") auto
  from group_loop_size [OF size_inv_init run] run show ?thesis
    by (auto simp: chunk_groups_def size_inv_def bounded_chunks_snoc carry_of_def)
qed

text \<open>Without overlap nothing is handed over, and the exception is a single sentence.\<close>

lemma overlap_tail_nonpos: "ov \<le> 0 \<Longrightarrow> overlap_tail ov g = []"
  using length_overlap_tail [of ov g] by simp

lemma bounded_chunks_no_overlap:
  "ov \<le> 0 \<Longrightarrow> bounded_chunks sz ov [] gs \<Longrightarrow>
   list_all (\<lambda>g. word_count (join_sp g) \<le> sz \<or> length g = 1) gs"
proof (induction gs)
  case Nil
  then show ?case by simp
next
  case (Cons g gs)
  from Cons.prems have "word_count (join_sp g) \<le> sz \<or> length g = 1"
    by (cases g rule: rev_cases) auto
  with Cons show ?case by (simp add: overlap_tail_nonpos)
qed

text \<open>There is always a sentence, hence always a chunk.\<close>

lemma re_split_from_nonempty: "re_split_from cur prev s \<noteq> []"
  by (induction cur prev s rule: re_split_from.induct) auto

lemma chunk_groups_nonempty: "ss \<noteq> [] \<Longrightarrow> chunk_groups ss sz ov \<noteq> []"
proof -
  assume ne: "ss \<noteq> []"
  obtain G c l where run: "group_loop sz ov [] [] 0 ss = (G, c, l)"
    by (cases "group_loop sz ov [] [] 0 ss") auto
  from group_loop_nonempty [OF run] ne have "c \<noteq> []" by simp
  with run show ?thesis by (simp add: chunk_groups_def)
qed

lemma chunk_document_never_empty: "chunk_document text sz ov \<noteq> []"
  by (simp add: chunk_document_groups chunk_groups_nonempty split_sentences_def
      re_split_from_nonempty)



text \<open>
  C4, as the code has it. A chunk that is opened with the overlap of its predecessor is
  not checked against \<open>chunk_size\<close> before the next sentence is added, so a chunk that is
  not the last one can exceed the size although no sentence does: four sentences of four
  words with \<open>chunk_size = 10\<close> and the default overlap of two sentences give a second
  chunk of twelve words.
\<close>

theorem chunk_size_bound_counterexample:
  "chunk_document ''a b c d. e f g h. i j k l. m n o p.'' 10 2 =
     [''a b c d. e f g h.'', ''a b c d. e f g h. i j k l.'', ''e f g h. i j k l. m n o p.''] \<and>
   word_count ''a b c d. e f g h. i j k l.'' = 12 \<and>
   map word_count (split_sentences ''a b c d. e f g h. i j k l. m n o p.'') = [4, 4, 4, 4]"
  by code_simp

text \<open>
  C4, amended. For every document text, chunk size and overlap, every chunk of
  \<open>chunk_document\<close>, the last one included, has at most \<open>chunk_size\<close> words, with the
  sole exception of a chunk that consists of exactly the sentences carried over from
  its predecessor (the last \<open>chunk_overlap_sentences\<close> sentences of the predecessor, or
  all of them if it has fewer; none for the first chunk) followed by one new sentence;
  without overlap the exception is a chunk of a single sentence, which is kept whole.
\<close>

theorem chunk_document_size_bound:
  "chunk_document text sz ov = map join_sp (chunk_groups (split_sentences text) sz ov) \<and>
   bounded_chunks sz ov [] (chunk_groups (split_sentences text) sz ov) \<and>
   (ov \<le> 0 \<longrightarrow>
      (\<forall>g \<in> set (chunk_groups (split_sentences text) sz ov).
         word_count (join_sp g) \<le> sz \<or> length g = 1))"
  using chunk_groups_bounded [of sz ov "split_sentences text"]
    bounded_chunks_no_overlap [of ov sz "chunk_groups (split_sentences text) sz ov"]
  by (simp add: chunk_document_groups list_all_iff)

theorem chunk_document_size_bound_witness:
  "bounded_chunks 10 2 []
     (chunk_groups (split_sentences ''a b c d. e f g h. i j k l. m n o p.'') 10 2) \<and>
   (0::int) \<le> 0 \<and>
   list_all (\<lambda>g. word_count (join_sp g) \<le> 10 \<or> length g = 1)
     (chunk_groups (split_sentences ''a b c d. e f g h. i j k l. m n o p.'') 10 0)"
  using chunk_document_size_bound [of "''a b c d. e f g h. i j k l. m n o p.''" 10 2]
    chunk_document_size_bound [of "''a b c d. e f g h. i j k l. m n o p.''" 10 0]
  by (simp add: list_all_iff)

text \<open>
  C5. The claim is that empty and whitespace-only input give no chunk. The code gives one
  chunk, the input itself: \<^verbatim>\<open>re.split\<close> returns the whole text as a single sentence, the
  loop adds it to \<open>current_chunk\<close>, and the final test sees a list that is not empty.
  The caller \<^verbatim>\<open>answer_question\<close> tests \<^verbatim>\<open>if not chunks\<close> for this very case.
\<close>

theorem chunk_document_blank_input:
  "chunk_document [] 200 2 = [[]] \<and> chunk_document ''   '' 200 2 = [''   '']"
  by code_simp

section \<open>Properties of the ranking\<close>

text \<open>What a sorting that meets the contract returns, and that the stable sort meets it.\<close>

lemma is_argsort_perm:
  assumes "is_argsort sims idx"
  shows "distinct idx" and "set idx = {..<length sims}" and "length idx = length sims"
proof -
  from assms have s: "sort idx = [0..<length sims]"
    by (simp add: is_argsort_def)
  have "distinct (sort idx)" by (simp only: s distinct_upt)
  then show "distinct idx" by simp
  have "set (sort idx) = {..<length sims}" by (simp only: s) auto
  then show "set idx = {..<length sims}" by simp
  have "length (sort idx) = length sims" by (simp only: s length_upt diff_zero)
  then show "length idx = length sims" by simp
qed

lemma is_argsort_sorted:
  "is_argsort sims idx \<Longrightarrow> sorted (map (\<lambda>i. sims ! i) idx)"
  by (simp add: is_argsort_def)

lemma stable_argsort_admissible: "is_argsort sims (stable_argsort sims)"
proof -
  let ?idx = "stable_argsort sims"
  have "sort ?idx = [0..<length sims]"
    by (rule sorted_distinct_set_unique) (simp_all add: stable_argsort_def)
  then show ?thesis
    by (simp add: is_argsort_def) (simp add: stable_argsort_def)
qed

text \<open>The two shapes of the slice: the last \<open>top_k\<close> indices, and all of them for zero.\<close>

lemma top_indices_pos:
  "1 \<le> k \<Longrightarrow> length (argsort sims) = length sims \<Longrightarrow>
   top_indices argsort sims k = rev (drop (length sims - nat k) (argsort sims))"
  by (simp add: top_indices_def py_slice_from_def nat_diff_distrib')

lemma top_indices_zero:
  "top_indices argsort sims 0 = rev (argsort sims)"
  by (simp add: top_indices_def py_slice_from_def)

lemma drop_above_take:
  fixes f :: "nat \<Rightarrow> 's::linorder"
  assumes "sorted (map f xs)" and "i \<in> set xs" and "i \<notin> set (drop m xs)" and "j \<in> set (drop m xs)"
  shows "f i \<le> f j"
proof -
  from assms(2,3) have "i \<in> set (take m xs)"
    by (metis Un_iff append_take_drop_id set_append)
  moreover from assms(1) have "sorted (map f (take m xs) @ map f (drop m xs))"
    by (simp flip: map_append)
  ultimately show ?thesis using assms(4) by (auto simp: sorted_append)
qed

text \<open>
  The order among equal scores is not fixed by the contract: for the scores 0.5, 0.5,
  0.25, 0.25 both sortings below meet it, and the ranking of the best three lists the
  tied entries once with the larger and once with the smaller index first.
\<close>

lemma tie_order_open:
  "is_argsort [1 / 2, 1 / 2, 1 / 4, 1 / 4 :: rat] [2, 3, 0, 1] \<and>
   top_indices (\<lambda>s. [2, 3, 0, 1]) [1 / 2, 1 / 2, 1 / 4, 1 / 4 :: rat] 3 = [1, 0, 3] \<and>
   is_argsort [1 / 2, 1 / 2, 1 / 4, 1 / 4 :: rat] [3, 2, 1, 0] \<and>
   top_indices (\<lambda>s. [3, 2, 1, 0]) [1 / 2, 1 / 2, 1 / 4, 1 / 4 :: rat] 3 = [0, 1, 2]"
  by (simp add: is_argsort_def top_indices_def py_slice_from_def)



text \<open>
  C2, as the code has it. The indices are sorted in ascending order of the score and the
  last \<open>top_k\<close> of them are reversed; nothing sorts on a negated score. With the stable
  sorting the scores 0.5, 0.9, 0.5 are ranked 1, 2, 0, the larger index of the tie
  first. And \<open>top_k = 0\<close> makes the slice \<^verbatim>\<open>[-0:]\<close>, which is the whole list, not the
  empty one.
\<close>

theorem top_indices_tie_counterexample:
  "is_argsort [1 / 2, 9 / 10, 1 / 2 :: rat] (stable_argsort [1 / 2, 9 / 10, 1 / 2 :: rat]) \<and>
   top_indices stable_argsort [1 / 2, 9 / 10, 1 / 2 :: rat] 3 = [1, 2, 0] \<and>
   top_indices stable_argsort [1 / 2, 9 / 10, 1 / 2 :: rat] 0 = [1, 2, 0]"
proof -
  have "top_indices stable_argsort [1 / 2, 9 / 10, 1 / 2 :: rat] 3 = [1, 2, 0]"
    by code_simp
  moreover have "top_indices stable_argsort [1 / 2, 9 / 10, 1 / 2 :: rat] 0 = [1, 2, 0]"
    by code_simp
  ultimately show ?thesis
    using stable_argsort_admissible [of "[1 / 2, 9 / 10, 1 / 2 :: rat]"] by simp
qed

text \<open>
  C2, amended. For every list of similarity scores, every sorting that meets the
  contract of \<^verbatim>\<open>np.argsort\<close> on it and every \<open>top_k\<close> of at least one, the ranking
  step returns exactly \<open>min top_k |corpus|\<close> distinct indices of the corpus, in descending
  order of similarity, and no entry left out has a higher score than an entry returned.
  The order among entries with exactly equal scores is the one the sorting leaves and
  is not determined by the corpus index.
\<close>

theorem top_indices_ranked:
  assumes "1 \<le> k" and "is_argsort sims (argsort sims)"
  shows "length (top_indices argsort sims k) = min (nat k) (length sims) \<and>
         distinct (top_indices argsort sims k) \<and>
         set (top_indices argsort sims k) \<subseteq> {..<length sims} \<and>
         sorted_wrt (\<lambda>i j. sims ! j \<le> sims ! i) (top_indices argsort sims k) \<and>
         (\<forall>i<length sims. i \<notin> set (top_indices argsort sims k) \<longrightarrow>
            (\<forall>j\<in>set (top_indices argsort sims k). sims ! i \<le> sims ! j))"
proof -
  let ?m = "length sims - nat k"
  note perm = is_argsort_perm [OF assms(2)]
  have eq: "top_indices argsort sims k = rev (drop ?m (argsort sims))"
    using assms(1) perm(3) by (rule top_indices_pos)
  have len: "length (top_indices argsort sims k) = min (nat k) (length sims)"
    using assms(1) by (simp add: eq perm(3))
  have dist: "distinct (top_indices argsort sims k)"
    by (simp add: eq perm(1))
  have sub: "set (top_indices argsort sims k) \<subseteq> {..<length sims}"
    using set_drop_subset [where n = ?m and xs = "argsort sims"] by (simp add: eq perm(2))
  have asc: "sorted (map (\<lambda>i. sims ! i) (argsort sims))"
    using assms(2) by (rule is_argsort_sorted)
  have ord: "sorted_wrt (\<lambda>i j. sims ! j \<le> sims ! i) (top_indices argsort sims k)"
  proof -
    from asc have "sorted_wrt (\<lambda>i j. sims ! i \<le> sims ! j) (argsort sims)"
      by (simp add: sorted_map)
    then have "sorted_wrt (\<lambda>i j. sims ! i \<le> sims ! j) (drop ?m (argsort sims))"
      by (rule sorted_wrt_drop)
    then show ?thesis by (simp add: eq sorted_wrt_rev)
  qed
  have top: "\<forall>i<length sims. i \<notin> set (top_indices argsort sims k) \<longrightarrow>
            (\<forall>j\<in>set (top_indices argsort sims k). sims ! i \<le> sims ! j)"
  proof (intro allI impI ballI)
    fix i j
    assume "i < length sims" "i \<notin> set (top_indices argsort sims k)"
      "j \<in> set (top_indices argsort sims k)"
    then have "i \<in> set (argsort sims)" "i \<notin> set (drop ?m (argsort sims))"
      "j \<in> set (drop ?m (argsort sims))"
      by (simp_all add: eq perm(2))
    with asc show "sims ! i \<le> sims ! j"
      by (rule drop_above_take)
  qed
  from len dist sub ord top show ?thesis by blast
qed

theorem top_indices_ranked_witness:
  "(1::int) \<le> 3 \<and>
   is_argsort [1 / 2, 9 / 10, 1 / 2, 1 / 4 :: rat] (stable_argsort [1 / 2, 9 / 10, 1 / 2, 1 / 4 :: rat]) \<and>
   length (top_indices stable_argsort [1 / 2, 9 / 10, 1 / 2, 1 / 4 :: rat] 3) =
     min (nat 3) (length [1 / 2, 9 / 10, 1 / 2, 1 / 4 :: rat]) \<and>
   distinct (top_indices stable_argsort [1 / 2, 9 / 10, 1 / 2, 1 / 4 :: rat] 3) \<and>
   sorted_wrt (\<lambda>i j. [1 / 2, 9 / 10, 1 / 2, 1 / 4 :: rat] ! j \<le> [1 / 2, 9 / 10, 1 / 2, 1 / 4] ! i)
     (top_indices stable_argsort [1 / 2, 9 / 10, 1 / 2, 1 / 4 :: rat] 3)"
proof -
  have h: "(1::int) \<le> 3" by simp
  have a: "is_argsort [1 / 2, 9 / 10, 1 / 2, 1 / 4 :: rat]
             (stable_argsort [1 / 2, 9 / 10, 1 / 2, 1 / 4 :: rat])"
    by code_simp
  from h a top_indices_ranked [where argsort = stable_argsort, OF h a]
  show ?thesis by blast
qed

section \<open>Properties of the session store\<close>

text \<open>
  C6. If the encoder raises on the chunks of the document, \<open>create_session\<close> reports the
  error and returns the store as it was (so an id that had no entry has none). Otherwise
  it reports success with the number of chunks, and the session stored under the id holds
  the document, its chunks, the embeddings the encoder returned for exactly these chunks,
  an empty conversation log and the creation timestamp. Chunking itself is a total
  function and raises nothing.
\<close>

theorem create_session_outcome:
  "(encode (chunk_document document_text 200 2) = Inl e \<longrightarrow>
      create_session encode now sessions session_id document_text metadata =
        (sessions, Inl (''Failed to create session: '' @ e)) \<and>
      (sessions session_id = None \<longrightarrow>
         fst (create_session encode now sessions session_id document_text metadata)
           session_id = None)) \<and>
   (encode (chunk_document document_text 200 2) = Inr embeddings \<longrightarrow>
      snd (create_session encode now sessions session_id document_text metadata) =
        Inr (session_id, length (chunk_document document_text 200 2)) \<and>
      (\<exists>s. fst (create_session encode now sessions session_id document_text metadata)
              session_id = Some s \<and>
           s_document_text s = document_text \<and>
           s_chunks s = chunk_document document_text 200 2 \<and>
           s_chunk_embeddings s = embeddings \<and>
           encode (s_chunks s) = Inr (s_chunk_embeddings s) \<and>
           s_conversation_history s = [] \<and>
           s_created_at s = now))"
  by (simp add: create_session_def Let_def)

theorem create_session_outcome_witness:
  "(failing_encode (chunk_document ''Hello there. Bye.'' 200 2) = Inl ''model unreachable'' \<and>
    create_session failing_encode ''t0'' sample_sessions ''s2'' ''Hello there. Bye.'' None =
      (sample_sessions, Inl ''Failed to create session: model unreachable'')) \<and>
   (sample_encode (chunk_document ''Hello there. Bye.'' 200 2) = Inr [17] \<and>
    snd (create_session sample_encode ''t0'' sample_sessions ''s2'' ''Hello there. Bye.'' None) =
      Inr (''s2'', 1))"
proof -
  have f: "failing_encode (chunk_document ''Hello there. Bye.'' 200 2) = Inl ''model unreachable''"
    by (simp add: failing_encode_def)
  have c: "chunk_document ''Hello there. Bye.'' 200 2 = [''Hello there. Bye.'']"
    by code_simp
  have g: "sample_encode (chunk_document ''Hello there. Bye.'' 200 2) = Inr [17]"
    by (simp add: c sample_encode_def)
  from f g c
    create_session_outcome [of failing_encode "''Hello there. Bye.''" "''model unreachable''"
      "''t0''" sample_sessions "''s2''" None "[]"]
    create_session_outcome [of sample_encode "''Hello there. Bye.''" "[]"
      "''t0''" sample_sessions "''s2''" None "[17]"]
  show ?thesis by simp
qed

text \<open>
  C9. For every session id present in the store, \<open>clear_history\<close> succeeds on the first
  and on the second call; after each call the store is the original one with the
  conversation log of that session emptied, so the document text, the chunks and the
  embeddings are unchanged.
\<close>

theorem clear_history_twice:
  assumes "sessions session_id = Some s"
  shows "snd (clear_history sessions session_id) = Inr () \<and>
         snd (clear_history (fst (clear_history sessions session_id)) session_id) = Inr () \<and>
         fst (clear_history sessions session_id) =
           sessions(session_id \<mapsto> s\<lparr>s_conversation_history := []\<rparr>) \<and>
         fst (clear_history (fst (clear_history sessions session_id)) session_id) =
           sessions(session_id \<mapsto> s\<lparr>s_conversation_history := []\<rparr>) \<and>
         s_conversation_history (s\<lparr>s_conversation_history := []\<rparr>) = [] \<and>
         s_document_text (s\<lparr>s_conversation_history := []\<rparr>) = s_document_text s \<and>
         s_chunks (s\<lparr>s_conversation_history := []\<rparr>) = s_chunks s \<and>
         s_chunk_embeddings (s\<lparr>s_conversation_history := []\<rparr>) = s_chunk_embeddings s"
  using assms by (simp add: clear_history_def)

theorem clear_history_twice_witness:
  "sample_sessions ''s1'' = Some sample_session \<and>
   snd (clear_history sample_sessions ''s1'') = Inr () \<and>
   snd (clear_history (fst (clear_history sample_sessions ''s1'')) ''s1'') = Inr () \<and>
   fst (clear_history (fst (clear_history sample_sessions ''s1'')) ''s1'') =
     sample_sessions(''s1'' \<mapsto> sample_session\<lparr>s_conversation_history := []\<rparr>)"
proof -
  have h: "sample_sessions ''s1'' = Some sample_session"
    by (simp add: sample_sessions_def)
  from h clear_history_twice [where sessions = sample_sessions and session_id = "''s1''", OF h]
  show ?thesis by blast
qed

text \<open>
  C10, as the code has it. \<open>create_session\<close> has no test for an id that is already in the
  store, but it still fails when the encoder raises, and then the previous session stays.
\<close>

theorem create_session_existing_id_counterexample:
  "sample_sessions ''s1'' = Some sample_session \<and>
   create_session failing_encode ''2024-02-02T00:00:00'' sample_sessions ''s1''
       ''A new document. With other text.'' None =
     (sample_sessions, Inl ''Failed to create session: model unreachable'')"
  by (simp add: create_session_def failing_encode_def sample_sessions_def)

text \<open>
  C10, amended. For every session id already present in the store, calling
  \<open>create_session\<close> again with that id and a document whose chunks the encoder embeds
  without raising succeeds and replaces the entire stored session: the entry under the
  id is the one the same call would store in an empty store, built from the new
  document, chunks, embeddings and metadata only, with an empty conversation log;
  nothing of the previous session remains.
\<close>

theorem create_session_replaces:
  assumes "sessions session_id = Some old"
    and "encode (chunk_document document_text 200 2) = Inr embeddings"
  shows "snd (create_session encode now sessions session_id document_text metadata) =
           Inr (session_id, length (chunk_document document_text 200 2)) \<and>
         fst (create_session encode now sessions session_id document_text metadata) session_id =
           Some \<lparr>s_document_text = document_text,
                 s_chunks = chunk_document document_text 200 2,
                 s_chunk_embeddings = embeddings,
                 s_metadata = (case metadata of None \<Rightarrow> [] | Some m \<Rightarrow> m),
                 s_conversation_history = [],
                 s_created_at = now\<rparr> \<and>
         fst (create_session encode now sessions session_id document_text metadata) session_id =
           fst (create_session encode now Map.empty session_id document_text metadata) session_id"
  using assms by (simp add: create_session_def Let_def)

theorem create_session_replaces_witness:
  "sample_sessions ''s1'' = Some sample_session \<and>
   sample_encode (chunk_document ''Hello there. Bye.'' 200 2) = Inr [17] \<and>
   snd (create_session sample_encode ''t1'' sample_sessions ''s1'' ''Hello there. Bye.'' None) =
     Inr (''s1'', 1) \<and>
   fst (create_session sample_encode ''t1'' sample_sessions ''s1'' ''Hello there. Bye.'' None) ''s1'' =
     Some \<lparr>s_document_text = ''Hello there. Bye.'',
           s_chunks = [''Hello there. Bye.''],
           s_chunk_embeddings = [17],
           s_metadata = [],
           s_conversation_history = [],
           s_created_at = ''t1''\<rparr>"
proof -
  have h: "sample_sessions ''s1'' = Some sample_session"
    by (simp add: sample_sessions_def)
  have c: "chunk_document ''Hello there. Bye.'' 200 2 = [''Hello there. Bye.'']"
    by code_simp
  have g: "sample_encode (chunk_document ''Hello there. Bye.'' 200 2) = Inr [17]"
    by (simp add: c sample_encode_def)
  from h g c
    create_session_replaces [where sessions = sample_sessions and session_id = "''s1''"
      and now = "''t1''" and metadata = None and encode = sample_encode
      and document_text = "''Hello there. Bye.''", OF h g]
  show ?thesis by simp
qed

section \<open>Properties of the local answer and of the summarizer\<close>

lemma score_sentences_empty:
  "(\<forall>sentence \<in> set sentences. overlap question_words sentence = 0) \<Longrightarrow>
   score_sentences question_words sentences = []"
  by (induction sentences) simp_all

text \<open>
  C8. For every question and context in which no sentence of the context shares a
  lower-cased word with the question, \<open>generate_answer\<close> returns the fixed message; the
  function is total, so no exception is involved.
\<close>

theorem generate_answer_no_overlap:
  assumes "\<forall>sentence \<in> set (split_sentences context).
             overlap (set (py_split (py_lower question))) sentence = 0"
  shows "generate_answer question context conversation_history = no_answer_message"
  using score_sentences_empty [OF assms] by (simp add: generate_answer_def)

theorem generate_answer_no_overlap_witness:
  "list_all (\<lambda>sentence. overlap (set (py_split (py_lower ''Why QUANTUM?''))) sentence = 0)
     (split_sentences ''Paris is the capital. It is big.'') \<and>
   generate_answer ''Why QUANTUM?'' ''Paris is the capital. It is big.'' () = no_answer_message"
proof -
  have h: "\<forall>sentence \<in> set (split_sentences ''Paris is the capital. It is big.'').
             overlap (set (py_split (py_lower ''Why QUANTUM?''))) sentence = 0"
    by code_simp
  from h generate_answer_no_overlap [OF h, of "()"] show ?thesis
    by (simp only: list_all_iff simp_thms)
qed



section \<open>Properties of the endpoint\<close>

text \<open>
  On the semantic search path an answer is returned only together with a store in which
  the turn has been added to the log of the session.
\<close>

lemma answer_from_session_appends:
  assumes "answer_from_session encode cosine_similarity argsort now sessions session_id question =
             (sessions', Inr result)"
  shows "\<exists>session. sessions session_id = Some session \<and>
           sessions' = sessions(session_id \<mapsto> session\<lparr>s_conversation_history :=
             s_conversation_history session @
               [\<lparr>turn_question = question, turn_answer = r_answer result,
                 turn_timestamp = now\<rparr>]\<rparr>)"
  using assms
  by (auto simp: answer_from_session_def Let_def split: option.splits sum.splits prod.splits)

lemma ask_question_local_appends:
  assumes "\<not> (req_use_llm request \<and> is_available llm)"
    and "ask_question llm encode cosine_similarity argsort now sessions request =
           (sessions', Inr response)"
  shows "\<exists>session. sessions (req_session_id request) = Some session \<and>
           sessions' = sessions(req_session_id request \<mapsto> session\<lparr>s_conversation_history :=
             s_conversation_history session @
               [\<lparr>turn_question = req_question request, turn_answer = resp_answer response,
                 turn_timestamp = now\<rparr>]\<rparr>)"
proof -
  from assms obtain result where
    run: "answer_from_session encode cosine_similarity argsort now sessions
            (req_session_id request) (req_question request) = (sessions', Inr result)"
    and ans: "resp_answer response = r_answer result"
    by (auto simp: ask_question_def split: prod.splits sum.splits)
  from answer_from_session_appends [OF run] ans show ?thesis by simp
qed

text \<open>On the language model path the store is returned as it was, whatever the outcome.\<close>

lemma ask_question_llm_store:
  assumes "req_use_llm request" and "is_available llm"
  shows "fst (ask_question llm encode cosine_similarity argsort now sessions request) = sessions"
  using assms by (simp add: ask_question_def split: option.splits)

lemma ask_llm_sample:
  "ask_llm sample_llm ''2024-03-03T00:00:00'' sample_session sample_request =
     Inr \<lparr>resp_session_id = ''s1'',
          resp_question = ''What is the capital of France?'',
          resp_answer = ''Paris'',
          resp_confidence_score = Some (9 / 10),
          resp_relevant_context = Some ''Paris is the capital of France. It is big.'',
          resp_timestamp = ''2024-03-03T00:00:00''\<rparr>"
  by code_simp

text \<open>
  C1. The claim is that every answered question adds a turn to the log of the session.
  On the language model path the code does not: a question asked with \<open>use_llm\<close> set,
  with a provider configured and a well-formed reply, is answered with \<open>Paris\<close>, and the
  store, with the one turn the log of the session had before, is returned unchanged.
\<close>

theorem ask_question_llm_path_keeps_log:
  "ask_question sample_llm sample_encode sample_cosine stable_argsort ''2024-03-03T00:00:00''
       sample_sessions sample_request =
     (sample_sessions,
      Inr \<lparr>resp_session_id = ''s1'',
           resp_question = ''What is the capital of France?'',
           resp_answer = ''Paris'',
           resp_confidence_score = Some (9 / 10),
           resp_relevant_context = Some ''Paris is the capital of France. It is big.'',
           resp_timestamp = ''2024-03-03T00:00:00''\<rparr>) \<and>
   map_option s_conversation_history (sample_sessions ''s1'') =
     Some [\<lparr>turn_question = ''Is it big?'', turn_answer = ''It is big.'',
            turn_timestamp = ''2024-01-01T00:00:00''\<rparr>]"
proof -
  have u: "req_use_llm sample_request" and i: "req_session_id sample_request = ''s1''"
    by (simp_all add: sample_request_def)
  have a: "is_available sample_llm"
    by (simp add: sample_llm_def)
  have s: "sample_sessions ''s1'' = Some sample_session"
    by (simp add: sample_sessions_def)
  have h: "s_conversation_history sample_session =
             [\<lparr>turn_question = ''Is it big?'', turn_answer = ''It is big.'',
               turn_timestamp = ''2024-01-01T00:00:00''\<rparr>]"
    by (simp add: sample_session_def)
  show ?thesis
    by (simp add: ask_question_def u i a s h ask_llm_sample)
qed

end
